theory Spec2Isabelle
  imports Main
begin

text \<open>
  A shallow embedding of \<^verbatim>\<open>henry.go\<close>, a program that walks a directory of markdown
  files, reads the front matter of each and builds one document record per file. The
  source file holds two revisions of the program; the model follows the later one (from
  line 170 on), which has \<^verbatim>\<open>createHenryDocument\<close>. Printing is left out.
\<close>

section \<open>Go values used by henry.go\<close>

text \<open>
  A Go \<^verbatim>\<open>string\<close> is a sequence of bytes, here a \<^typ>\<open>string\<close> (a list of 8-bit characters).
  An \<^verbatim>\<open>error\<close> value is either one of the operating system's (opaque here, only its
  text is kept) or one made by \<^verbatim>\<open>errors.New\<close>.
\<close>

datatype error = PathError string | ErrorString string

text \<open>
  The run-time panics the program can reach: a nil pointer dereference, an index
  expression \<^verbatim>\<open>a[i]\<close> with \<^verbatim>\<open>i >= len(a)\<close> (index, length), a slice expression
  \<^verbatim>\<open>a[0:h]\<close> with \<^verbatim>\<open>h > cap(a)\<close> (bound, capacity), and \<^verbatim>\<open>panic(err)\<close> in \<^verbatim>\<open>main\<close>.
\<close>

datatype panic =
    NilDereference
  | IndexOutOfRange nat nat
  | SliceBoundsOutOfRange nat nat
  | PanicError error

datatype 'a result = Ok 'a | Err error | Panic panic

text \<open>
  \<^verbatim>\<open>time.Time\<close>: seconds and nanoseconds since January 1, year 1, 00:00:00 UTC.
  \<^verbatim>\<open>IsZero\<close> reports whether both are zero.
\<close>

datatype Time = Time int nat

fun IsZero :: "Time \<Rightarrow> bool" where
  "IsZero (Time sec nsec) = (sec = 0 \<and> nsec = 0)"

text \<open>
  A \<^verbatim>\<open>[]byte\<close> slice: the \<^verbatim>\<open>len\<close> bytes it holds, and the bytes of its backing array
  between \<^verbatim>\<open>len\<close> and \<^verbatim>\<open>cap\<close>. A slice expression \<^verbatim>\<open>b[0:h]\<close> is in range up to the
  capacity (not the length) of \<^verbatim>\<open>b\<close>, and then also reads the spare bytes.
\<close>

record byte_slice =
  elems :: string
  spare :: string

definition nil_slice :: byte_slice where
  "nil_slice = \<lparr>elems = [], spare = []\<rparr>"

definition cap :: "byte_slice \<Rightarrow> nat" where
  "cap b = length (elems b) + length (spare b)"

definition slice_to :: "byte_slice \<Rightarrow> nat \<Rightarrow> string option" where
  "slice_to b h = (if h \<le> cap b then Some (take h (elems b @ spare b)) else None)"

subsection \<open>Package strings\<close>

definition HasPrefix :: "string \<Rightarrow> string \<Rightarrow> bool" where
  "HasPrefix s pre = (length pre \<le> length s \<and> take (length pre) s = pre)"

definition HasSuffix :: "string \<Rightarrow> string \<Rightarrow> bool" where
  "HasSuffix s suf = (length suf \<le> length s \<and> drop (length s - length suf) s = suf)"

definition TrimPrefix :: "string \<Rightarrow> string \<Rightarrow> string" where
  "TrimPrefix s pre = (if HasPrefix s pre then drop (length pre) s else s)"

definition TrimSuffix :: "string \<Rightarrow> string \<Rightarrow> string" where
  "TrimSuffix s suf = (if HasSuffix s suf then take (length s - length suf) s else s)"

text \<open>\<^verbatim>\<open>Index\<close>: the position of the first occurrence of \<open>sep\<close>, \<open>None\<close> for Go's -1.\<close>

fun Index :: "string \<Rightarrow> string \<Rightarrow> nat option" where
  "Index [] sep = (if sep = [] then Some 0 else None)"
| "Index (c # cs) sep =
     (if HasPrefix (c # cs) sep then Some 0 else map_option Suc (Index cs sep))"

text \<open>
  \<^verbatim>\<open>genSplit(s, sep, sepSave, -1)\<close>: cut \<open>s\<close> at every occurrence of \<open>sep\<close>, found from the
  left without overlap, keeping \<open>sepSave\<close> bytes of the separator with the piece before
  it. The program only passes the separators \<^verbatim>\<open>"---"\<close> and \<^verbatim>\<open>"\n"\<close>; for an empty
  separator Go explodes the string into its UTF-8 sequences, single bytes here.
\<close>

function genSplit :: "string \<Rightarrow> string \<Rightarrow> nat \<Rightarrow> string list" where
  "genSplit s sep sepSave =
     (if sep = [] then map (\<lambda>c. [c]) s
      else case Index s sep of
             None \<Rightarrow> [s]
           | Some m \<Rightarrow> take (m + sepSave) s # genSplit (drop (m + length sep) s) sep sepSave)"
  by pat_completeness auto
termination
proof (relation "measure (\<lambda>(s, sep, sepSave). length s)")
  show "wf (measure (\<lambda>(s, sep, sepSave). length s))"
    by simp
next
  fix s sep :: string and sepSave m :: nat
  assume ne: "sep \<noteq> []" and ix: "Index s sep = Some m"
  have bound: "\<And>k. Index t sep = Some k \<Longrightarrow> k + length sep \<le> length t" for t
  proof (induction t)
    case Nil
    then show ?case by (simp split: if_splits)
  next
    case (Cons c cs)
    then show ?case by (auto simp: HasPrefix_def split: if_splits)
  qed
  from bound [OF ix] ne have "0 < length s" "0 < m + length sep" "m + length sep \<le> length s"
    by auto
  then show "((drop (m + length sep) s, sep, sepSave), (s, sep, sepSave))
      \<in> measure (\<lambda>(s, sep, sepSave). length s)"
    by simp
qed

declare genSplit.simps [simp del]

definition Split :: "string \<Rightarrow> string \<Rightarrow> string list" where
  "Split s sep = genSplit s sep 0"

definition SplitAfter :: "string \<Rightarrow> string \<Rightarrow> string list" where
  "SplitAfter s sep = genSplit s sep (length sep)"

text \<open>
  \<^verbatim>\<open>Replace(s, old, new, -1)\<close>: every occurrence of \<open>old\<close>, found from the left without
  overlap, becomes \<open>new\<close>. For an empty \<open>old\<close> Go inserts \<open>new\<close> before every UTF-8
  sequence and at the end; the program passes \<^verbatim>\<open>"\n\n"\<close>.
\<close>

function Replace :: "string \<Rightarrow> string \<Rightarrow> string \<Rightarrow> string" where
  "Replace s old new =
     (if old = [] then concat (map (\<lambda>c. new @ [c]) s) @ new
      else case Index s old of
             None \<Rightarrow> s
           | Some m \<Rightarrow> take m s @ new @ Replace (drop (m + length old) s) old new)"
  by pat_completeness auto
termination
proof (relation "measure (\<lambda>(s, old, new). length s)")
  show "wf (measure (\<lambda>(s, old, new). length s))"
    by simp
next
  fix s old new :: string and m :: nat
  assume ne: "old \<noteq> []" and ix: "Index s old = Some m"
  have bound: "\<And>k. Index t old = Some k \<Longrightarrow> k + length old \<le> length t" for t
  proof (induction t)
    case Nil
    then show ?case by (simp split: if_splits)
  next
    case (Cons c cs)
    then show ?case by (auto simp: HasPrefix_def split: if_splits)
  qed
  from bound [OF ix] ne have "0 < length s" "0 < m + length old" "m + length old \<le> length s"
    by auto
  then show "((drop (m + length old) s, old, new), (s, old, new))
      \<in> measure (\<lambda>(s, old, new). length s)"
    by simp
qed

declare Replace.simps [simp del]

text \<open>
  \<^verbatim>\<open>Trim(s, cutset)\<close>: \<open>s\<close> without its leading and trailing bytes that are in \<open>cutset\<close>
  (a cutset of ASCII characters, as the program's \<^verbatim>\<open>"\n"\<close>).
\<close>

definition TrimLeft :: "string \<Rightarrow> string \<Rightarrow> string" where
  "TrimLeft s cutset = dropWhile (\<lambda>c. c \<in> set cutset) s"

definition TrimRight :: "string \<Rightarrow> string \<Rightarrow> string" where
  "TrimRight s cutset = rev (dropWhile (\<lambda>c. c \<in> set cutset) (rev s))"

definition Trim :: "string \<Rightarrow> string \<Rightarrow> string" where
  "Trim s cutset = TrimLeft (TrimRight s cutset) cutset"

section \<open>The data model of henry.go\<close>

datatype HenryFileType = HenryFileTypeUnknown | HenryFileTypeMarkdown

record HenryFileMetadata =
  Meta_Title :: string
  Meta_Date :: Time
  Meta_Draft :: bool
  Meta_Summary :: string

text \<open>The zero value of the struct, what \<^verbatim>\<open>var metadata HenryFileMetadata\<close> declares.\<close>

definition zero_HenryFileMetadata :: HenryFileMetadata where
  "zero_HenryFileMetadata =
     \<lparr>Meta_Title = [], Meta_Date = Time 0 0, Meta_Draft = False, Meta_Summary = []\<rparr>"

text \<open>\<open>Metadata\<close> is a pointer in the source: \<open>None\<close> is the nil pointer.\<close>

record HenryFile =
  Name :: string
  Path :: string
  SubPath :: string
  Type :: HenryFileType
  Data :: byte_slice
  Body :: string
  HasMetadata :: bool
  Metadata :: "HenryFileMetadata option"
  Date :: Time

text \<open>The composite literal \<^verbatim>\<open>&HenryFile{Name: name, Path: path}\<close>: every other field is zero.\<close>

definition new_HenryFile :: "string \<Rightarrow> string \<Rightarrow> HenryFile" where
  "new_HenryFile name path =
     \<lparr>Name = name, Path = path, SubPath = [], Type = HenryFileTypeUnknown, Data = nil_slice,
      Body = [], HasMetadata = False, Metadata = None, Date = Time 0 0\<rparr>"

record HenryDocument =
  Title :: string
  Content :: string
  ContentRaw :: string
  ContentParagraphs :: "string list"
  Doc_Date :: Time
  Draft :: bool
  Summary :: string
  SummaryRaw :: string

definition zero_HenryDocument :: HenryDocument where
  "zero_HenryDocument =
     \<lparr>Title = [], Content = [], ContentRaw = [], ContentParagraphs = [], Doc_Date = Time 0 0,
      Draft = False, Summary = [], SummaryRaw = []\<rparr>"

section \<open>The collaborators\<close>

text \<open>
  The file system as the program sees it: for a path, what \<^verbatim>\<open>os.Open\<close> followed by
  \<^verbatim>\<open>ioutil.ReadAll\<close> gives (the file's bytes, or the error of either call), and what
  \<^verbatim>\<open>os.Stat\<close> gives (the modification time, the only field read, or its error).
\<close>

record filesystem =
  fs_read :: "string \<Rightarrow> error + string"
  fs_modtime :: "string \<Rightarrow> error + Time"

text \<open>
  The slice \<^verbatim>\<open>ioutil.ReadAll\<close> returns: the library reads into a zeroed buffer of 512
  bytes (\<^verbatim>\<open>bytes.MinRead\<close>), so a short file comes with spare capacity holding zero
  bytes. Past 512 bytes the buffer grows as the run time decides; the program reads
  spare bytes only through \<^verbatim>\<open>Data[0:3]\<close>, which then lies inside the content.
\<close>

definition ioutil_ReadAll :: "string \<Rightarrow> byte_slice" where
  "ioutil_ReadAll content =
     \<lparr>elems = content, spare = replicate (512 - length content) (CHR 0x00)\<rparr>"

text \<open>
  \<^verbatim>\<open>toml.Decode\<close> (github.com/BurntSushi/toml) is a parameter \<open>decode\<close> of the model: from
  the text of the block to the decoder's error text or the struct it filled, starting
  from the zero value. Likewise \<^verbatim>\<open>blackfriday.Run\<close> is the parameter \<open>render\<close> and
  \<^verbatim>\<open>bluemonday.UGCPolicy().SanitizeBytes\<close> the parameter \<open>sanitize\<close>.
\<close>

type_synonym toml_decoder = "string \<Rightarrow> string + HenryFileMetadata"

text \<open>
  \<^verbatim>\<open>filepath.Walk\<close> calls its function once per entry of the tree, in lexical order, and
  stops at the first error the function returns (the function below never returns
  \<^verbatim>\<open>filepath.SkipDir\<close>). A tree is given as the calls the walk makes when none fails:
  the path, the entry's base name, whether it is a directory, and the error the walk
  itself met at the entry, if any.
\<close>

record walk_entry =
  entry_path :: string
  entry_name :: string
  entry_isDir :: bool
  entry_err :: "error option"

section \<open>The functions of henry.go\<close>

definition classifyHenryFile :: "HenryFile \<Rightarrow> string \<Rightarrow> HenryFile" where
  "classifyHenryFile file rootPath =
     (let file1 = (if HasSuffix (Path file) ''.md''
                   then file\<lparr>Type := HenryFileTypeMarkdown\<rparr>
                   else file\<lparr>Type := HenryFileTypeUnknown\<rparr>);
          tmp = TrimPrefix (Path file1) rootPath;
          tmp' = TrimSuffix tmp (Name file1)
      in file1\<lparr>SubPath := tmp'\<rparr>)"

definition readHenryFileData :: "filesystem \<Rightarrow> HenryFile \<Rightarrow> HenryFile result" where
  "readHenryFileData fs file =
     (case fs_read fs (Path file) of
        Inl err \<Rightarrow> Err err
      | Inr content \<Rightarrow> Ok (file\<lparr>Data := ioutil_ReadAll content\<rparr>))"

text \<open>The text of \<^verbatim>\<open>fmt.Sprintf("error parsing metadata in '%s': %s", file.Name, err)\<close>.\<close>

definition metadata_error :: "string \<Rightarrow> string \<Rightarrow> error" where
  "metadata_error name err =
     ErrorString (''error parsing metadata in '' @ [CHR 0x27] @ name @ [CHR 0x27] @ '': '' @ err)"

definition readHenryFileMetadata :: "toml_decoder \<Rightarrow> HenryFile \<Rightarrow> HenryFile result" where
  "readHenryFileMetadata decode file =
     (if length (elems (Data file)) = 0 then Ok file
      else
        let file1 = file\<lparr>HasMetadata := False, Metadata := Some zero_HenryFileMetadata\<rparr> in
        case slice_to (Data file1) 3 of
          None \<Rightarrow> Panic (SliceBoundsOutOfRange 3 (cap (Data file1)))
        | Some hdr \<Rightarrow>
            if hdr \<noteq> ''---'' then Ok (file1\<lparr>Body := elems (Data file1)\<rparr>)
            else
              let headerParts = Split (elems (Data file1)) ''---'' in
              if length headerParts \<le> 1 then Panic (IndexOutOfRange 1 (length headerParts))
              else
                case decode (headerParts ! 1) of
                  Inl err \<Rightarrow> Err (metadata_error (Name file1) err)
                | Inr metadata \<Rightarrow>
                    if length headerParts \<le> 2
                    then Panic (IndexOutOfRange 2 (length headerParts))
                    else Ok (file1\<lparr>HasMetadata := True, Metadata := Some metadata,
                                    Body := headerParts ! 2\<rparr>))"

definition analyzeHenryFile ::
  "filesystem \<Rightarrow> toml_decoder \<Rightarrow> HenryFile \<Rightarrow> string \<Rightarrow> HenryFile result" where
  "analyzeHenryFile fs decode file rootPath =
     (let file1 = classifyHenryFile file rootPath;
          parsed = (if Type file1 = HenryFileTypeMarkdown
                    then (case readHenryFileData fs file1 of
                            Ok file2 \<Rightarrow> readHenryFileMetadata decode file2
                          | Err readErr \<Rightarrow> Err readErr
                          | Panic p \<Rightarrow> Panic p)
                    else Ok file1)
      in case parsed of
           Ok file3 \<Rightarrow>
             (case fs_modtime fs (Path file3) of
                Inl err \<Rightarrow> Err err
              | Inr modTime \<Rightarrow> Ok (file3\<lparr>Date := modTime\<rparr>))
         | Err e \<Rightarrow> Err e
         | Panic p \<Rightarrow> Panic p)"

text \<open>
  \<open>render\<close> and \<open>sanitize\<close> stand for the two libraries. The first read of
  \<^verbatim>\<open>file.Metadata.Title\<close> dereferences the pointer. The function's error result is
  always nil.
\<close>

definition createHenryDocument ::
  "(string \<Rightarrow> string) \<Rightarrow> (string \<Rightarrow> string) \<Rightarrow> HenryFile \<Rightarrow> HenryDocument result" where
  "createHenryDocument render sanitize file =
     (let u = render (Body file);
          h = sanitize u;
          content = Replace h ''\<newline>\<newline>'' ''\<newline>'';
          content' = Trim content ''\<newline>'';
          paragraphs = map (\<lambda>paragraph. Trim paragraph ''\<newline>'') (SplitAfter content' ''\<newline>'');
          doc = zero_HenryDocument\<lparr>Content := content', ContentRaw := Body file,
                                    ContentParagraphs := paragraphs\<rparr>
      in case Metadata file of
           None \<Rightarrow> Panic NilDereference
         | Some metadata \<Rightarrow>
             let doc1 = (if Meta_Title metadata \<noteq> [] then doc\<lparr>Title := Meta_Title metadata\<rparr>
                         else doc\<lparr>Title := Name file\<rparr>);
                 doc2 = (if \<not> IsZero (Meta_Date metadata)
                         then doc1\<lparr>Doc_Date := Meta_Date metadata\<rparr>
                         else doc1\<lparr>Doc_Date := Date file\<rparr>);
                 doc3 = (if Meta_Draft metadata then doc2\<lparr>Draft := Meta_Draft metadata\<rparr>
                         else doc2\<lparr>Draft := False\<rparr>);
                 doc4 = (if Meta_Summary metadata \<noteq> []
                         then doc3\<lparr>Summary := sanitize (render (Meta_Summary metadata)),
                                   SummaryRaw := Meta_Summary metadata\<rparr>
                         else if length (ContentParagraphs doc3) > 0
                              then doc3\<lparr>Summary := hd (ContentParagraphs doc3)\<rparr>
                              else doc3)
             in Ok doc4)"

text \<open>
  The loop of \<^verbatim>\<open>createHenryDocuments\<close>, with \<open>docs\<close> the slice built so far: an error
  of the builder is printed by \<^verbatim>\<open>debug\<close> and the file skipped; a panic ends the run.
\<close>

fun createHenryDocuments_loop ::
  "(string \<Rightarrow> string) \<Rightarrow> (string \<Rightarrow> string) \<Rightarrow> HenryFile list \<Rightarrow> HenryDocument list
    \<Rightarrow> HenryDocument list result" where
  "createHenryDocuments_loop render sanitize [] docs = Ok docs"
| "createHenryDocuments_loop render sanitize (file # files) docs =
     (case createHenryDocument render sanitize file of
        Err err \<Rightarrow> createHenryDocuments_loop render sanitize files docs
      | Panic p \<Rightarrow> Panic p
      | Ok doc \<Rightarrow> createHenryDocuments_loop render sanitize files (docs @ [doc]))"

definition createHenryDocuments ::
  "(string \<Rightarrow> string) \<Rightarrow> (string \<Rightarrow> string) \<Rightarrow> HenryFile list \<Rightarrow> HenryDocument list result" where
  "createHenryDocuments render sanitize files =
     createHenryDocuments_loop render sanitize files []"

text \<open>
  The walk of \<^verbatim>\<open>findHenryFiles\<close>, with \<open>foundFiles\<close> the slice built so far. The result
  is the pair the function returns: the files found and the walk's error.
\<close>

fun findHenryFiles_walk ::
  "filesystem \<Rightarrow> toml_decoder \<Rightarrow> string \<Rightarrow> walk_entry list \<Rightarrow> HenryFile list
    \<Rightarrow> (HenryFile list \<times> error option) result" where
  "findHenryFiles_walk fs decode rootPath [] foundFiles = Ok (foundFiles, None)"
| "findHenryFiles_walk fs decode rootPath (entry # entries) foundFiles =
     (case entry_err entry of
        Some err \<Rightarrow> Ok (foundFiles, Some err)
      | None \<Rightarrow>
          if \<not> entry_isDir entry then
            (case analyzeHenryFile fs decode
                    (new_HenryFile (entry_name entry) (entry_path entry)) rootPath of
               Ok henryFile \<Rightarrow>
                 findHenryFiles_walk fs decode rootPath entries (foundFiles @ [henryFile])
             | Err err \<Rightarrow> Ok (foundFiles, Some err)
             | Panic p \<Rightarrow> Panic p)
          else findHenryFiles_walk fs decode rootPath entries foundFiles)"

definition findHenryFiles ::
  "filesystem \<Rightarrow> toml_decoder \<Rightarrow> walk_entry list \<Rightarrow> string
    \<Rightarrow> (HenryFile list \<times> error option) result" where
  "findHenryFiles fs decode tree rootPath = findHenryFiles_walk fs decode rootPath tree []"

text \<open>
  \<^verbatim>\<open>main\<close> without its printing: the documents it prints, or the panic that ends it.
\<close>

definition henry_main ::
  "filesystem \<Rightarrow> toml_decoder \<Rightarrow> (string \<Rightarrow> string) \<Rightarrow> (string \<Rightarrow> string) \<Rightarrow> walk_entry list
    \<Rightarrow> string \<Rightarrow> HenryDocument list result" where
  "henry_main fs decode render sanitize tree rootPath =
     (case findHenryFiles fs decode tree rootPath of
        Panic p \<Rightarrow> Panic p
      | Err err \<Rightarrow> Panic (PanicError err)
      | Ok (henryFiles, Some err) \<Rightarrow> Panic (PanicError err)
      | Ok (henryFiles, None) \<Rightarrow> createHenryDocuments render sanitize henryFiles)"

section \<open>Example inputs\<close>

text \<open>
  A stand-in for the TOML decoder on the documents the examples use: a blank document
  decodes to the zero value, the one-line document \<^verbatim>\<open>draft = true\<close> sets the draft flag,
  and a YAML-style line \<^verbatim>\<open>title: Two\<close> is a syntax error (its text stands for the
  library's). On these documents it answers as \<^verbatim>\<open>toml.Decode\<close> does.
\<close>

definition decode_example :: toml_decoder where
  "decode_example block =
     (if dropWhile (\<lambda>c. c = CHR '' '' \<or> c = CHR ''\<newline>'') block = []
      then Inr zero_HenryFileMetadata
      else if block = ''\<newline>draft = true\<newline>''
      then Inr (zero_HenryFileMetadata\<lparr>Meta_Draft := True\<rparr>)
      else Inl ''expected key separator'')"

definition example_files :: "(string \<times> string) list" where
  "example_files =
     [(''/data/1.md'', ''# One\<newline>''),
      (''/data/2.md'', ''---\<newline>title: Two\<newline>---\<newline>body\<newline>''),
      (''/data/3.md'', ''# Three\<newline>''),
      (''/data/empty.md'', []),
      (''/data/open.md'', ''---\<newline>draft = true\<newline>''),
      (''/data/rule.md'', ''---\<newline>draft = true\<newline>---\<newline>above\<newline>---\<newline>below\<newline>'')]"

definition example_fs :: filesystem where
  "example_fs =
     \<lparr>fs_read = (\<lambda>path. case map_of example_files path of
                          None \<Rightarrow> Inl (PathError ''no such file or directory'')
                        | Some content \<Rightarrow> Inr content),
      fs_modtime = (\<lambda>path. Inr (Time 63682000000 0))\<rparr>"

definition example_entry :: "string \<Rightarrow> walk_entry" where
  "example_entry name =
     \<lparr>entry_path = ''/data/'' @ name, entry_name = name, entry_isDir = False,
      entry_err = None\<rparr>"

text \<open>A File Record as the parser leaves it, with the metadata given.\<close>

definition example_post :: "HenryFileMetadata \<Rightarrow> HenryFile" where
  "example_post metadata =
     (new_HenryFile ''post.md'' ''/data/post.md'')
       \<lparr>Type := HenryFileTypeMarkdown, Body := ''First para\<newline>\<newline>Second para\<newline>'',
        Metadata := Some metadata, Date := Time 63682000000 0\<rparr>"

text \<open>
  The File Record of a markdown file after \<^verbatim>\<open>classifyHenryFile\<close> and
  \<^verbatim>\<open>readHenryFileData\<close>, as \<^verbatim>\<open>readHenryFileMetadata\<close> receives it from the walk.
\<close>

definition read_markdown :: "string \<Rightarrow> string \<Rightarrow> string \<Rightarrow> string \<Rightarrow> HenryFile" where
  "read_markdown name path rootPath content =
     \<lparr>Name = name, Path = path, SubPath = TrimSuffix (TrimPrefix path rootPath) name,
      Type = HenryFileTypeMarkdown, Data = ioutil_ReadAll content,
      Body = [], HasMetadata = False, Metadata = None, Date = Time 0 0\<rparr>"

section \<open>Facts about the string functions\<close>

lemma Index_bound: "Index s sep = Some m \<Longrightarrow> m + length sep \<le> length s"
  by (induction s arbitrary: m) (auto simp: HasPrefix_def split: if_splits)

lemma genSplit_not_Nil: "sep \<noteq> [] \<Longrightarrow> genSplit s sep sepSave \<noteq> []"
  by (subst genSplit.simps) (simp split: option.split)

lemma Index_byte_None: "Index s [c] = None \<Longrightarrow> c \<notin> set s"
  by (induction s) (auto simp: HasPrefix_def split: if_splits)

lemma Index_byte_Some:
  "Index s [c] = Some m \<Longrightarrow> m < length s \<and> s ! m = c \<and> c \<notin> set (take m s)"
proof (induction s arbitrary: m)
  case Nil
  then show ?case by simp
next
  case (Cons a s)
  show ?case
  proof (cases "a = c")
    case True
    with Cons.prems show ?thesis by (simp add: HasPrefix_def)
  next
    case False
    with Cons.prems obtain k where k: "Index s [c] = Some k" "m = Suc k"
      by (auto simp: HasPrefix_def)
    from Cons.IH [OF k(1)] False k(2) show ?thesis by simp
  qed
qed

lemma dropWhile_byte_id: "c \<notin> set xs \<Longrightarrow> dropWhile (\<lambda>x. x = c) xs = xs"
  by (cases xs) auto

lemma Trim_without: "c \<notin> set a \<Longrightarrow> Trim a [c] = a"
  by (simp add: Trim_def TrimLeft_def TrimRight_def dropWhile_byte_id)

lemma Trim_snoc: "c \<notin> set a \<Longrightarrow> Trim (a @ [c]) [c] = a"
  by (simp add: Trim_def TrimLeft_def TrimRight_def dropWhile_byte_id)

text \<open>
  Every piece of a split after a one-byte separator holds the separator at most once,
  as its last byte, so trimming the piece removes it.
\<close>

lemma SplitAfter_byte_trimmed:
  "p \<in> set (genSplit s [c] (Suc 0)) \<Longrightarrow> c \<notin> set (Trim p [c])"
proof (induction s "[c]" "Suc 0" arbitrary: p rule: genSplit.induct)
  case (1 s)
  show ?case
  proof (cases "Index s [c]")
    case None
    with "1.prems" have "p = s" by (subst (asm) genSplit.simps) simp
    with None show ?thesis by (simp add: Index_byte_None Trim_without)
  next
    case (Some m)
    with "1.prems" have "p = take (m + 1) s \<or> p \<in> set (genSplit (drop (m + 1) s) [c] (Suc 0))"
      by (subst (asm) genSplit.simps) auto
    then show ?thesis
    proof
      assume "p = take (m + 1) s"
      with Index_byte_Some [OF Some] have "p = take m s @ [c]" "c \<notin> set (take m s)"
        by (simp_all add: take_Suc_conv_app_nth)
      then show ?thesis by (simp add: Trim_snoc)
    next
      assume "p \<in> set (genSplit (drop (m + 1) s) [c] (Suc 0))"
      with "1.hyps" [of m p] Some show ?thesis by simp
    qed
  qed
qed

text \<open>The pieces of a split that keeps the separators, put together, are the string.\<close>

lemma concat_genSplit_after: "sep \<noteq> [] \<Longrightarrow> concat (genSplit s sep (length sep)) = s"
proof (induction s sep "length sep" rule: genSplit.induct)
  case (1 s sep)
  show ?case
  proof (cases "Index s sep")
    case None
    with "1.prems" show ?thesis by (subst genSplit.simps) simp
  next
    case (Some m)
    with "1.hyps" [of m] "1.prems" show ?thesis
      by (subst genSplit.simps) simp
  qed
qed

section \<open>The Front-Matter Parser\<close>

text \<open>
  What \<^verbatim>\<open>string(file.Data[0:3])\<close> reads from a buffer of \<^verbatim>\<open>ioutil.ReadAll\<close>: the first
  three bytes of the content, filled up with zero bytes where the content is shorter.
  It is the delimiter exactly when the content starts with the delimiter.
\<close>

lemma elems_ReadAll: "elems (ioutil_ReadAll content) = content"
  by (simp add: ioutil_ReadAll_def)

lemma slice_to_ReadAll:
  "slice_to (ioutil_ReadAll content) 3
     = Some (take 3 content @ replicate (3 - length content) (CHR 0x00))"
  by (auto simp: slice_to_def ioutil_ReadAll_def cap_def min_def)

lemma header_ReadAll:
  "(take 3 content @ replicate (3 - length content) (CHR 0x00) = ''---'')
     = HasPrefix content ''---''"
proof (cases "3 \<le> length content")
  case True
  then show ?thesis by (simp add: HasPrefix_def numeral_3_eq_3)
next
  case False
  then have "length content = 0 \<or> length content = 1 \<or> length content = 2" by arith
  then have "CHR 0x00 \<in> set (take 3 content @ replicate (3 - length content) (CHR 0x00))"
    by auto
  moreover have "CHR 0x00 \<notin> set ''---''" by simp
  ultimately have "take 3 content @ replicate (3 - length content) (CHR 0x00) \<noteq> ''---''"
    by metis
  with False show ?thesis by (simp add: HasPrefix_def)
qed

lemma Index_HasPrefix: "HasPrefix s sep \<Longrightarrow> Index s sep = Some 0"
  by (cases s) (auto simp: HasPrefix_def)

lemma Split_HasPrefix:
  "sep \<noteq> [] \<Longrightarrow> HasPrefix s sep \<Longrightarrow> Split s sep = [] # Split (drop (length sep) s) sep"
  unfolding Split_def by (subst genSplit.simps) (simp add: Index_HasPrefix)

lemma readHenryFileMetadata_empty:
  "elems (Data file) = [] \<Longrightarrow> readHenryFileMetadata decode file = Ok file"
  by (simp add: readHenryFileMetadata_def)

text \<open>
  The header read is out of range only for a buffer whose capacity is below three, which
  \<^verbatim>\<open>ioutil.ReadAll\<close> does not return.
\<close>

lemma readHenryFileMetadata_short_capacity:
  "elems (Data file) \<noteq> [] \<Longrightarrow> cap (Data file) < 3 \<Longrightarrow>
   readHenryFileMetadata decode file = Panic (SliceBoundsOutOfRange 3 (cap (Data file)))"
  by (simp add: readHenryFileMetadata_def slice_to_def Let_def)

lemma readHenryFileMetadata_plain:
  assumes "Data file = ioutil_ReadAll content" and "content \<noteq> []"
    and "\<not> HasPrefix content ''---''"
  shows "readHenryFileMetadata decode file
    = Ok (file\<lparr>HasMetadata := False, Metadata := Some zero_HenryFileMetadata, Body := content\<rparr>)"
  using assms
  by (simp add: readHenryFileMetadata_def Let_def slice_to_ReadAll elems_ReadAll header_ReadAll
      del: replicate.simps)

lemma readHenryFileMetadata_front:
  assumes "Data file = ioutil_ReadAll content" and "HasPrefix content ''---''"
  shows "readHenryFileMetadata decode file
    = (case decode (Split content ''---'' ! 1) of
         Inl err \<Rightarrow> Err (metadata_error (Name file) err)
       | Inr metadata \<Rightarrow>
           if length (Split content ''---'') \<le> 2
           then Panic (IndexOutOfRange 2 (length (Split content ''---'')))
           else Ok (file\<lparr>HasMetadata := True, Metadata := Some metadata,
                         Body := Split content ''---'' ! 2\<rparr>))"
proof -
  from assms(2) have ne: "content \<noteq> []" by (auto simp: HasPrefix_def)
  have "Split (drop 3 content) ''---'' \<noteq> []"
    unfolding Split_def by (rule genSplit_not_Nil) simp
  moreover from Split_HasPrefix [OF _ assms(2)]
  have "Split content ''---'' = [] # Split (drop 3 content) ''---''"
    by (simp add: numeral_3_eq_3)
  ultimately have len: "\<not> length (Split content ''---'') \<le> 1"
    by (cases "Split (drop 3 content) ''---''") simp_all
  from assms ne len show ?thesis
    by (simp add: readHenryFileMetadata_def Let_def slice_to_ReadAll elems_ReadAll header_ReadAll
        del: replicate.simps split: sum.split)
qed

lemma readHenryFileMetadata_frame:
  "readHenryFileMetadata decode file = Ok file' \<Longrightarrow>
     Name file' = Name file \<and> Path file' = Path file \<and> SubPath file' = SubPath file
     \<and> Type file' = Type file \<and> Data file' = Data file \<and> Date file' = Date file"
  by (auto simp: readHenryFileMetadata_def Let_def split: if_splits option.splits sum.splits)

lemma analyzeHenryFile_Date:
  "analyzeHenryFile fs decode file rootPath = Ok file' \<Longrightarrow>
     fs_modtime fs (Path file) = Inr (Date file')"
  by (auto simp: analyzeHenryFile_def Let_def classifyHenryFile_def readHenryFileData_def
      dest!: readHenryFileMetadata_frame split: if_splits result.splits sum.splits)

section \<open>Analysing one file\<close>

lemma classify_new_markdown:
  "HasSuffix path ''.md'' \<Longrightarrow>
   classifyHenryFile (new_HenryFile name path) rootPath
     = (new_HenryFile name path)
         \<lparr>Type := HenryFileTypeMarkdown, SubPath := TrimSuffix (TrimPrefix path rootPath) name\<rparr>"
  by (simp add: classifyHenryFile_def new_HenryFile_def Let_def)

lemma analyzeHenryFile_markdown:
  assumes "HasSuffix path ''.md''" and "fs_read fs path = Inr content"
  shows "analyzeHenryFile fs decode (new_HenryFile name path) rootPath
    = (case readHenryFileMetadata decode (read_markdown name path rootPath content) of
         Ok file \<Rightarrow>
           (case fs_modtime fs path of
              Inl err \<Rightarrow> Err err
            | Inr modTime \<Rightarrow> Ok (file\<lparr>Date := modTime\<rparr>))
       | Err e \<Rightarrow> Err e
       | Panic p \<Rightarrow> Panic p)"
proof -
  have r: "readHenryFileData fs (classifyHenryFile (new_HenryFile name path) rootPath)
      = Ok (read_markdown name path rootPath content)"
    unfolding classify_new_markdown [OF assms(1)] using assms(2)
    by (simp add: readHenryFileData_def read_markdown_def new_HenryFile_def)
  have t: "Type (classifyHenryFile (new_HenryFile name path) rootPath) = HenryFileTypeMarkdown"
    using assms by (simp add: classify_new_markdown)
  have p: "Path parsed = path"
    if "readHenryFileMetadata decode (read_markdown name path rootPath content) = Ok parsed"
    for parsed
    using readHenryFileMetadata_frame [OF that] by (simp add: read_markdown_def)
  show ?thesis
    unfolding analyzeHenryFile_def Let_def
    by (simp add: r t p split: result.split)
qed

lemma analyzeHenryFile_plain:
  assumes "HasSuffix path ''.md''" and "fs_read fs path = Inr content"
    and "content \<noteq> []" and "\<not> HasPrefix content ''---''"
    and "fs_modtime fs path = Inr modTime"
  shows "analyzeHenryFile fs decode (new_HenryFile name path) rootPath
    = Ok ((read_markdown name path rootPath content)
            \<lparr>Body := content, Metadata := Some zero_HenryFileMetadata, Date := modTime\<rparr>)"
proof -
  have "readHenryFileMetadata decode (read_markdown name path rootPath content)
      = Ok ((read_markdown name path rootPath content)
          \<lparr>HasMetadata := False, Metadata := Some zero_HenryFileMetadata, Body := content\<rparr>)"
    by (rule readHenryFileMetadata_plain [OF _ assms(3,4)]) (simp add: read_markdown_def)
  with assms(5) show ?thesis
    by (simp add: analyzeHenryFile_markdown [OF assms(1,2)]) (simp add: read_markdown_def)
qed

lemma analyzeHenryFile_empty:
  assumes "HasSuffix path ''.md''" and "fs_read fs path = Inr []"
    and "fs_modtime fs path = Inr modTime"
  shows "analyzeHenryFile fs decode (new_HenryFile name path) rootPath
    = Ok ((read_markdown name path rootPath [])\<lparr>Date := modTime\<rparr>)"
proof -
  have "readHenryFileMetadata decode (read_markdown name path rootPath [])
      = Ok (read_markdown name path rootPath [])"
    by (rule readHenryFileMetadata_empty) (simp add: read_markdown_def elems_ReadAll)
  with assms(3) show ?thesis
    by (simp add: analyzeHenryFile_markdown [OF assms(1,2)])
qed

lemma analyzeHenryFile_front:
  assumes "HasSuffix path ''.md''" and "fs_read fs path = Inr content"
    and "HasPrefix content ''---''"
  shows "analyzeHenryFile fs decode (new_HenryFile name path) rootPath
    = (case decode (Split content ''---'' ! 1) of
         Inl err \<Rightarrow> Err (metadata_error name err)
       | Inr metadata \<Rightarrow>
           if length (Split content ''---'') \<le> 2
           then Panic (IndexOutOfRange 2 (length (Split content ''---'')))
           else (case fs_modtime fs path of
                   Inl err \<Rightarrow> Err err
                 | Inr modTime \<Rightarrow>
                     Ok ((read_markdown name path rootPath content)
                           \<lparr>Body := Split content ''---'' ! 2, HasMetadata := True,
                            Metadata := Some metadata, Date := modTime\<rparr>)))"
proof -
  have d: "Data (read_markdown name path rootPath content) = ioutil_ReadAll content"
    by (simp add: read_markdown_def)
  show ?thesis
    by (simp add: analyzeHenryFile_markdown [OF assms(1,2)]
        readHenryFileMetadata_front [OF d assms(3)] split: sum.split)
      (simp add: read_markdown_def)
qed

lemma example_fs_read:
  "fs_read example_fs ''/data/1.md'' = Inr ''# One\<newline>''"
  "fs_read example_fs ''/data/2.md'' = Inr ''---\<newline>title: Two\<newline>---\<newline>body\<newline>''"
  "fs_read example_fs ''/data/3.md'' = Inr ''# Three\<newline>''"
  "fs_read example_fs ''/data/empty.md'' = Inr []"
  "fs_read example_fs ''/data/open.md'' = Inr ''---\<newline>draft = true\<newline>''"
  "fs_read example_fs ''/data/rule.md''
     = Inr ''---\<newline>draft = true\<newline>---\<newline>above\<newline>---\<newline>below\<newline>''"
  by (simp_all add: example_fs_def example_files_def)

lemma example_fs_modtime: "fs_modtime example_fs path = Inr (Time 63682000000 0)"
  by (simp add: example_fs_def)

lemma example_Split:
  "Split ''---\<newline>title: Two\<newline>---\<newline>body\<newline>'' ''---'' = [[], ''\<newline>title: Two\<newline>'', ''\<newline>body\<newline>'']"
  "Split ''---\<newline>draft = true\<newline>'' ''---'' = [[], ''\<newline>draft = true\<newline>'']"
  "Split ''---\<newline>draft = true\<newline>---\<newline>above\<newline>---\<newline>below\<newline>'' ''---''
     = [[], ''\<newline>draft = true\<newline>'', ''\<newline>above\<newline>'', ''\<newline>below\<newline>'']"
  by code_simp+

lemma example_decode:
  "decode_example ''\<newline>title: Two\<newline>'' = Inl ''expected key separator''"
  "decode_example ''\<newline>draft = true\<newline>'' = Inr (zero_HenryFileMetadata\<lparr>Meta_Draft := True\<rparr>)"
  "decode_example [] = Inr zero_HenryFileMetadata"
  by (simp_all add: decode_example_def)

lemma analyze_example_2:
  "analyzeHenryFile example_fs decode_example (new_HenryFile ''2.md'' ''/data/2.md'') ''/data/''
     = Err (metadata_error ''2.md'' ''expected key separator'')"
  by (subst analyzeHenryFile_front [OF _ example_fs_read(2)])
    (simp_all add: HasSuffix_def HasPrefix_def example_Split example_decode)

lemma analyze_example_open:
  "analyzeHenryFile example_fs decode_example (new_HenryFile ''open.md'' ''/data/open.md'') ''/data/''
     = Panic (IndexOutOfRange 2 2)"
  by (subst analyzeHenryFile_front [OF _ example_fs_read(5)])
    (simp_all add: HasSuffix_def HasPrefix_def example_Split example_decode)

section \<open>The Document Builder\<close>

text \<open>
  With the metadata present the builder returns a Document. \<open>content_of\<close> is the
  sanitized, collapsed and trimmed HTML the source names \<^verbatim>\<open>content\<close>.
\<close>

lemma createHenryDocument_present:
  assumes "Metadata file = Some metadata"
  shows "\<exists>doc. createHenryDocument render sanitize file = Ok doc
    \<and> Title doc = (if Meta_Title metadata \<noteq> [] then Meta_Title metadata else Name file)
    \<and> Doc_Date doc = (if \<not> IsZero (Meta_Date metadata) then Meta_Date metadata else Date file)
    \<and> Draft doc = (if Meta_Draft metadata then Meta_Draft metadata else False)
    \<and> Content doc
        = Trim (Replace (sanitize (render (Body file))) ''\<newline>\<newline>'' ''\<newline>'') ''\<newline>''
    \<and> ContentRaw doc = Body file
    \<and> ContentParagraphs doc
        = map (\<lambda>paragraph. Trim paragraph ''\<newline>'') (SplitAfter (Content doc) ''\<newline>'')
    \<and> Summary doc
        = (if Meta_Summary metadata \<noteq> [] then sanitize (render (Meta_Summary metadata))
           else if length (ContentParagraphs doc) > 0 then hd (ContentParagraphs doc) else [])
    \<and> SummaryRaw doc = (if Meta_Summary metadata \<noteq> [] then Meta_Summary metadata else [])"
  using assms by (simp add: createHenryDocument_def Let_def zero_HenryDocument_def)

lemma example_post_Metadata: "Metadata (example_post metadata) = Some metadata"
  by (simp add: example_post_def)

lemma example_post_paragraphs:
  "map (\<lambda>paragraph. Trim paragraph ''\<newline>'')
     (SplitAfter (Trim (Replace ''First para\<newline>\<newline>Second para\<newline>'' ''\<newline>\<newline>'' ''\<newline>'') ''\<newline>'') ''\<newline>'')
     = [''First para'', ''Second para'']"
  by code_simp

lemma example_post_document:
  assumes "createHenryDocument (\<lambda>text. text) (\<lambda>html. html) (example_post metadata) = Ok doc"
  shows "ContentParagraphs doc = [''First para'', ''Second para'']"
proof -
  from createHenryDocument_present [OF example_post_Metadata, of "\<lambda>text. text" "\<lambda>html. html" metadata]
    assms
  have "ContentParagraphs doc = map (\<lambda>paragraph. Trim paragraph ''\<newline>'')
     (SplitAfter (Trim (Replace ''First para\<newline>\<newline>Second para\<newline>'' ''\<newline>\<newline>'' ''\<newline>'') ''\<newline>'') ''\<newline>'')"
    by (auto simp: example_post_def)
  then show ?thesis by (simp only: example_post_paragraphs)
qed

lemma analyze_example_1:
  "analyzeHenryFile example_fs decode_example (new_HenryFile ''1.md'' ''/data/1.md'') ''/data/''
     = Ok ((read_markdown ''1.md'' ''/data/1.md'' ''/data/'' ''# One\<newline>'')
            \<lparr>Body := ''# One\<newline>'', Metadata := Some zero_HenryFileMetadata,
             Date := Time 63682000000 0\<rparr>)"
  by (rule analyzeHenryFile_plain [OF _ example_fs_read(1) _ _ example_fs_modtime])
    (simp_all add: HasSuffix_def HasPrefix_def)

text \<open>
  Claim C6. For a File Record whose metadata is present the builder returns a Document
  whose summary is resolved so: if the metadata summary is not empty, \<open>Summary\<close> is that
  summary rendered and sanitized (nothing is collapsed or trimmed) and \<open>SummaryRaw\<close> is
  the summary as written; otherwise, if there are content paragraphs, \<open>Summary\<close> is the
  first of them and \<open>SummaryRaw\<close> stays empty; otherwise both stay empty.
\<close>

theorem summary_resolution:
  assumes "Metadata file = Some metadata"
  shows "\<exists>doc. createHenryDocument render sanitize file = Ok doc
    \<and> (if Meta_Summary metadata \<noteq> []
        then Summary doc = sanitize (render (Meta_Summary metadata))
           \<and> SummaryRaw doc = Meta_Summary metadata
        else if ContentParagraphs doc \<noteq> []
        then Summary doc = hd (ContentParagraphs doc) \<and> SummaryRaw doc = []
        else Summary doc = [] \<and> SummaryRaw doc = [])"
proof -
  from createHenryDocument_present [OF assms, of render sanitize]
  obtain doc where "createHenryDocument render sanitize file = Ok doc"
    and "Summary doc
        = (if Meta_Summary metadata \<noteq> [] then sanitize (render (Meta_Summary metadata))
           else if length (ContentParagraphs doc) > 0 then hd (ContentParagraphs doc) else [])"
    and "SummaryRaw doc = (if Meta_Summary metadata \<noteq> [] then Meta_Summary metadata else [])"
    by blast
  then show ?thesis by auto
qed

theorem summary_resolution_witness:
  "Metadata (example_post zero_HenryFileMetadata) = Some zero_HenryFileMetadata
   \<and> (\<exists>doc. createHenryDocument (\<lambda>text. text) (\<lambda>html. html)
               (example_post zero_HenryFileMetadata) = Ok doc
        \<and> ContentParagraphs doc = [''First para'', ''Second para'']
        \<and> Summary doc = ''First para'' \<and> SummaryRaw doc = [])"
proof -
  have present: "Metadata (example_post zero_HenryFileMetadata) = Some zero_HenryFileMetadata"
    by (rule example_post_Metadata)
  from summary_resolution [OF present, of "\<lambda>text. text" "\<lambda>html. html"]
  obtain doc where doc: "createHenryDocument (\<lambda>text. text) (\<lambda>html. html)
               (example_post zero_HenryFileMetadata) = Ok doc"
    and s: "(if Meta_Summary zero_HenryFileMetadata \<noteq> []
        then Summary doc = Meta_Summary zero_HenryFileMetadata
           \<and> SummaryRaw doc = Meta_Summary zero_HenryFileMetadata
        else if ContentParagraphs doc \<noteq> []
        then Summary doc = hd (ContentParagraphs doc) \<and> SummaryRaw doc = []
        else Summary doc = [] \<and> SummaryRaw doc = [])"
    by blast
  note ps = example_post_document [OF doc]
  with s have "Summary doc = ''First para'' \<and> SummaryRaw doc = []"
    by (simp add: zero_HenryFileMetadata_def)
  with present doc ps show ?thesis by simp
qed

text \<open>
  Claim C7. For a File Record whose metadata is present the builder returns a Document
  whose title is the metadata title when that is not the empty string, and the record's
  file name otherwise.
\<close>

theorem title_resolution:
  assumes "Metadata file = Some metadata"
  shows "\<exists>doc. createHenryDocument render sanitize file = Ok doc
    \<and> Title doc = (if Meta_Title metadata \<noteq> [] then Meta_Title metadata else Name file)"
  using createHenryDocument_present [OF assms, of render sanitize] by blast

theorem title_resolution_witness:
  "Metadata (example_post zero_HenryFileMetadata) = Some zero_HenryFileMetadata
   \<and> (\<exists>doc. createHenryDocument (\<lambda>text. text) (\<lambda>html. html)
               (example_post zero_HenryFileMetadata) = Ok doc \<and> Title doc = ''post.md'')
   \<and> Metadata (example_post (zero_HenryFileMetadata\<lparr>Meta_Title := ''Hello''\<rparr>))
        = Some (zero_HenryFileMetadata\<lparr>Meta_Title := ''Hello''\<rparr>)
   \<and> (\<exists>doc. createHenryDocument (\<lambda>text. text) (\<lambda>html. html)
               (example_post (zero_HenryFileMetadata\<lparr>Meta_Title := ''Hello''\<rparr>)) = Ok doc
          \<and> Title doc = ''Hello'')"
  using title_resolution [OF example_post_Metadata, of "\<lambda>text. text" "\<lambda>html. html"
      zero_HenryFileMetadata]
    title_resolution [OF example_post_Metadata, of "\<lambda>text. text" "\<lambda>html. html"
      "zero_HenryFileMetadata\<lparr>Meta_Title := ''Hello''\<rparr>"]
  by (simp add: example_post_def new_HenryFile_def zero_HenryFileMetadata_def)

text \<open>
  Claim C8. A File Record that \<^verbatim>\<open>analyzeHenryFile\<close> returned carries in \<open>Date\<close> the
  modification time \<^verbatim>\<open>os.Stat\<close> reported for its path; with its metadata present, the
  builder returns a Document whose date is the metadata date when that is not the zero
  time, and that modification time otherwise.
\<close>

theorem date_resolution:
  assumes "analyzeHenryFile fs decode file0 rootPath = Ok file"
    and "Metadata file = Some metadata"
  shows "\<exists>doc modTime. fs_modtime fs (Path file0) = Inr modTime \<and> Date file = modTime
    \<and> createHenryDocument render sanitize file = Ok doc
    \<and> Doc_Date doc = (if \<not> IsZero (Meta_Date metadata) then Meta_Date metadata else modTime)"
  using createHenryDocument_present [OF assms(2), of render sanitize]
    analyzeHenryFile_Date [OF assms(1)] by auto

theorem date_resolution_witness:
  "analyzeHenryFile example_fs decode_example (new_HenryFile ''1.md'' ''/data/1.md'') ''/data/''
     = Ok ((read_markdown ''1.md'' ''/data/1.md'' ''/data/'' ''# One\<newline>'')
            \<lparr>Body := ''# One\<newline>'', Metadata := Some zero_HenryFileMetadata,
             Date := Time 63682000000 0\<rparr>)
   \<and> (\<exists>doc. createHenryDocument (\<lambda>text. text) (\<lambda>html. html)
          ((read_markdown ''1.md'' ''/data/1.md'' ''/data/'' ''# One\<newline>'')
            \<lparr>Body := ''# One\<newline>'', Metadata := Some zero_HenryFileMetadata,
             Date := Time 63682000000 0\<rparr>) = Ok doc
        \<and> Doc_Date doc = Time 63682000000 0)"
  using date_resolution [OF analyze_example_1, of zero_HenryFileMetadata
      "\<lambda>text. text" "\<lambda>html. html"] analyze_example_1
  by (simp add: zero_HenryFileMetadata_def)

text \<open>
  Claim C9. For a File Record whose metadata is present, the draft flag the builder
  resolves (the metadata flag if it is true, else false) is the metadata flag itself,
  whichever of the two boolean values it has.
\<close>

theorem draft_resolution:
  assumes "Metadata file = Some metadata"
  shows "\<exists>doc. createHenryDocument render sanitize file = Ok doc
    \<and> Draft doc = (if Meta_Draft metadata then Meta_Draft metadata else False)
    \<and> Draft doc = Meta_Draft metadata"
  using createHenryDocument_present [OF assms, of render sanitize] by auto

theorem draft_resolution_witness:
  "Metadata (example_post (zero_HenryFileMetadata\<lparr>Meta_Draft := True\<rparr>))
     = Some (zero_HenryFileMetadata\<lparr>Meta_Draft := True\<rparr>)
   \<and> (\<exists>doc. createHenryDocument (\<lambda>text. text) (\<lambda>html. html)
          (example_post (zero_HenryFileMetadata\<lparr>Meta_Draft := True\<rparr>)) = Ok doc \<and> Draft doc)
   \<and> Metadata (example_post zero_HenryFileMetadata) = Some zero_HenryFileMetadata
   \<and> (\<exists>doc. createHenryDocument (\<lambda>text. text) (\<lambda>html. html)
          (example_post zero_HenryFileMetadata) = Ok doc \<and> \<not> Draft doc)"
  using draft_resolution [OF example_post_Metadata, of "\<lambda>text. text" "\<lambda>html. html"
      "zero_HenryFileMetadata\<lparr>Meta_Draft := True\<rparr>"]
    draft_resolution [OF example_post_Metadata, of "\<lambda>text. text" "\<lambda>html. html"
      zero_HenryFileMetadata]
  by (simp add: example_post_Metadata zero_HenryFileMetadata_def)

text \<open>
  Claim C10. For a File Record whose metadata is present the builder returns a Document
  whose content paragraphs are the pieces of the content split after every newline (the
  pieces put together are the content, so each newline stays with the piece before it),
  each trimmed of newlines; no paragraph contains the newline character.
\<close>

theorem paragraphs_without_newline:
  assumes "Metadata file = Some metadata"
  shows "\<exists>doc. createHenryDocument render sanitize file = Ok doc
    \<and> ContentParagraphs doc
        = map (\<lambda>paragraph. Trim paragraph ''\<newline>'') (SplitAfter (Content doc) ''\<newline>'')
    \<and> concat (SplitAfter (Content doc) ''\<newline>'') = Content doc
    \<and> (\<forall>paragraph \<in> set (ContentParagraphs doc). CHR ''\<newline>'' \<notin> set paragraph)"
proof -
  from createHenryDocument_present [OF assms, of render sanitize]
  obtain doc where doc: "createHenryDocument render sanitize file = Ok doc"
    and ps: "ContentParagraphs doc
        = map (\<lambda>paragraph. Trim paragraph ''\<newline>'') (SplitAfter (Content doc) ''\<newline>'')"
    by blast
  have "concat (SplitAfter (Content doc) ''\<newline>'') = Content doc"
    unfolding SplitAfter_def by (rule concat_genSplit_after) simp
  moreover have "\<forall>paragraph \<in> set (ContentParagraphs doc). CHR ''\<newline>'' \<notin> set paragraph"
    unfolding ps SplitAfter_def using SplitAfter_byte_trimmed [of _ _ "CHR ''\<newline>''"]
    by auto
  ultimately show ?thesis using doc ps by blast
qed

theorem paragraphs_without_newline_witness:
  "Metadata (example_post zero_HenryFileMetadata) = Some zero_HenryFileMetadata
   \<and> (\<exists>doc. createHenryDocument (\<lambda>text. text) (\<lambda>html. html)
          (example_post zero_HenryFileMetadata) = Ok doc
        \<and> ContentParagraphs doc = [''First para'', ''Second para'']
        \<and> (\<forall>paragraph \<in> set (ContentParagraphs doc). CHR ''\<newline>'' \<notin> set paragraph))"
proof -
  from paragraphs_without_newline [OF example_post_Metadata, of "\<lambda>text. text" "\<lambda>html. html"
      zero_HenryFileMetadata]
  obtain doc where doc: "createHenryDocument (\<lambda>text. text) (\<lambda>html. html)
          (example_post zero_HenryFileMetadata) = Ok doc"
    and nl: "\<forall>paragraph \<in> set (ContentParagraphs doc). CHR ''\<newline>'' \<notin> set paragraph"
    by blast
  from example_post_document [OF doc] doc nl show ?thesis
    by (simp add: example_post_Metadata)
qed

section \<open>Claims about the Front-Matter Parser\<close>

lemma genSplit_first:
  "sep \<noteq> [] \<Longrightarrow>
   genSplit s sep 0 = (case Index s sep of
       None \<Rightarrow> [s]
     | Some m \<Rightarrow> take m s # genSplit (drop (m + length sep) s) sep 0)"
  by (subst genSplit.simps) (simp split: option.split)

lemma Split_front_matter:
  assumes "Index (block @ ''---'' @ rest) ''---'' = Some (length block)"
  shows "\<exists>more. Split (''---'' @ block @ ''---'' @ rest) ''---''
    = [] # block # (case Index rest ''---'' of None \<Rightarrow> rest | Some k \<Rightarrow> take k rest) # more"
proof -
  have one: "Split (''---'' @ block @ ''---'' @ rest) ''---''
      = [] # genSplit (block @ ''---'' @ rest) ''---'' 0"
    unfolding Split_def by (subst genSplit_first) (simp_all add: HasPrefix_def)
  have two: "genSplit (block @ ''---'' @ rest) ''---'' 0 = block # genSplit rest ''---'' 0"
  proof -
    have "genSplit (block @ ''---'' @ rest) ''---'' 0
        = (case Index (block @ ''---'' @ rest) ''---'' of
             None \<Rightarrow> [block @ ''---'' @ rest]
           | Some m \<Rightarrow> take m (block @ ''---'' @ rest)
               # genSplit (drop (m + length ''---'') (block @ ''---'' @ rest)) ''---'' 0)"
      by (rule genSplit_first) simp
    also have "\<dots> = take (length block) (block @ ''---'' @ rest)
        # genSplit (drop (length block + length ''---'') (block @ ''---'' @ rest)) ''---'' 0"
      by (simp only: assms option.case)
    also have "\<dots> = block # genSplit rest ''---'' 0"
      by simp
    finally show ?thesis .
  qed
  have three: "\<exists>more. genSplit rest ''---'' 0
      = (case Index rest ''---'' of None \<Rightarrow> rest | Some k \<Rightarrow> take k rest) # more"
    by (subst genSplit_first) (simp_all split: option.split)
  from one two three show ?thesis by auto
qed

lemma example_rule_Index:
  "Index (''\<newline>draft = true\<newline>'' @ ''---'' @ ''\<newline>above\<newline>---\<newline>below\<newline>'') ''---''
     = Some (length ''\<newline>draft = true\<newline>'')"
  by code_simp

text \<open>
  Claim C4, as the code has it. For a file whose content starts with the delimiter and
  holds a second one (the first occurrence after the first delimiter, with the block
  between them), and whose block the decoder accepts: the parser sets has-metadata, the
  metadata is what the decoder made of the block, and the body is the text after the
  second delimiter up to the third occurrence of the delimiter, or up to the end of the
  file when there is no third. This holds for every buffer, whatever its capacity.
\<close>

theorem front_matter_split:
  assumes "elems (Data file) = ''---'' @ block @ ''---'' @ rest"
    and "Index (block @ ''---'' @ rest) ''---'' = Some (length block)"
    and "decode block = Inr metadata"
  shows "readHenryFileMetadata decode file
    = Ok (file\<lparr>HasMetadata := True, Metadata := Some metadata,
               Body := (case Index rest ''---'' of None \<Rightarrow> rest | Some k \<Rightarrow> take k rest)\<rparr>)"
proof -
  from assms(1) have hdr: "slice_to (Data file) 3 = Some ''---''"
    by (simp add: slice_to_def cap_def)
  from Split_front_matter [OF assms(2)] assms(1) obtain more
    where parts: "Split (elems (Data file)) ''---''
      = [] # block # (case Index rest ''---'' of None \<Rightarrow> rest | Some k \<Rightarrow> take k rest) # more"
    by auto
  from assms(1) have ne: "elems (Data file) \<noteq> []" by simp
  show ?thesis
    using ne hdr assms(3)
    by (simp add: readHenryFileMetadata_def Let_def parts numeral_2_eq_2)
qed

theorem front_matter_split_witness:
  "elems (Data (read_markdown ''rule.md'' ''/data/rule.md'' ''/data/''
       ''---\<newline>draft = true\<newline>---\<newline>above\<newline>---\<newline>below\<newline>''))
     = ''---'' @ ''\<newline>draft = true\<newline>'' @ ''---'' @ ''\<newline>above\<newline>---\<newline>below\<newline>''
   \<and> Index (''\<newline>draft = true\<newline>'' @ ''---'' @ ''\<newline>above\<newline>---\<newline>below\<newline>'') ''---''
       = Some (length ''\<newline>draft = true\<newline>'')
   \<and> decode_example ''\<newline>draft = true\<newline>'' = Inr (zero_HenryFileMetadata\<lparr>Meta_Draft := True\<rparr>)
   \<and> readHenryFileMetadata decode_example
        (read_markdown ''rule.md'' ''/data/rule.md'' ''/data/''
          ''---\<newline>draft = true\<newline>---\<newline>above\<newline>---\<newline>below\<newline>'')
      = Ok ((read_markdown ''rule.md'' ''/data/rule.md'' ''/data/''
          ''---\<newline>draft = true\<newline>---\<newline>above\<newline>---\<newline>below\<newline>'')
            \<lparr>HasMetadata := True,
             Metadata := Some (zero_HenryFileMetadata\<lparr>Meta_Draft := True\<rparr>),
             Body := ''\<newline>above\<newline>''\<rparr>)"
proof -
  have e: "elems (Data (read_markdown ''rule.md'' ''/data/rule.md'' ''/data/''
       ''---\<newline>draft = true\<newline>---\<newline>above\<newline>---\<newline>below\<newline>''))
     = ''---'' @ ''\<newline>draft = true\<newline>'' @ ''---'' @ ''\<newline>above\<newline>---\<newline>below\<newline>''"
    by (simp add: read_markdown_def elems_ReadAll)
  have "readHenryFileMetadata decode_example
        (read_markdown ''rule.md'' ''/data/rule.md'' ''/data/''
          ''---\<newline>draft = true\<newline>---\<newline>above\<newline>---\<newline>below\<newline>'')
      = Ok ((read_markdown ''rule.md'' ''/data/rule.md'' ''/data/''
          ''---\<newline>draft = true\<newline>---\<newline>above\<newline>---\<newline>below\<newline>'')
            \<lparr>HasMetadata := True,
             Metadata := Some (zero_HenryFileMetadata\<lparr>Meta_Draft := True\<rparr>),
             Body := (case Index ''\<newline>above\<newline>---\<newline>below\<newline>'' ''---'' of
                        None \<Rightarrow> ''\<newline>above\<newline>---\<newline>below\<newline>''
                      | Some k \<Rightarrow> take k ''\<newline>above\<newline>---\<newline>below\<newline>'')\<rparr>)"
    by (rule front_matter_split [where decode = decode_example
      and block = "''\<newline>draft = true\<newline>''"
      and rest = "''\<newline>above\<newline>---\<newline>below\<newline>''", OF e example_rule_Index(1) example_decode(2)])
  also have "(case Index ''\<newline>above\<newline>---\<newline>below\<newline>'' ''---'' of
                        None \<Rightarrow> ''\<newline>above\<newline>---\<newline>below\<newline>''
                      | Some k \<Rightarrow> take k ''\<newline>above\<newline>---\<newline>below\<newline>'') = ''\<newline>above\<newline>''"
    by code_simp
  finally show ?thesis
    by (intro conjI) (rule e, rule example_rule_Index(1), rule example_decode(2))
qed

text \<open>
  Claim C4 as stated fails on a body that holds the delimiter: the body of
  \<^verbatim>\<open>rule.md\<close> is cut at the rule \<^verbatim>\<open>---\<close> inside it, and is not the whole text after
  the second delimiter.
\<close>

theorem body_stops_at_third_delimiter:
  "\<exists>file'. readHenryFileMetadata decode_example
       (read_markdown ''rule.md'' ''/data/rule.md'' ''/data/''
          ''---\<newline>draft = true\<newline>---\<newline>above\<newline>---\<newline>below\<newline>'') = Ok file'
     \<and> HasMetadata file'
     \<and> Metadata file' = Some (zero_HenryFileMetadata\<lparr>Meta_Draft := True\<rparr>)
     \<and> Body file' = ''\<newline>above\<newline>''
     \<and> Body file' \<noteq> ''\<newline>above\<newline>---\<newline>below\<newline>''"
proof -
  have "readHenryFileMetadata decode_example
       (read_markdown ''rule.md'' ''/data/rule.md'' ''/data/''
          ''---\<newline>draft = true\<newline>---\<newline>above\<newline>---\<newline>below\<newline>'')
     = Ok ((read_markdown ''rule.md'' ''/data/rule.md'' ''/data/''
          ''---\<newline>draft = true\<newline>---\<newline>above\<newline>---\<newline>below\<newline>'')
         \<lparr>HasMetadata := True, Metadata := Some (zero_HenryFileMetadata\<lparr>Meta_Draft := True\<rparr>),
          Body := ''\<newline>above\<newline>''\<rparr>)"
    by (subst readHenryFileMetadata_front
          [where content = "''---\<newline>draft = true\<newline>---\<newline>above\<newline>---\<newline>below\<newline>''"])
      (simp_all add: read_markdown_def HasPrefix_def example_Split example_decode)
  then show ?thesis by simp
qed

text \<open>
  Claim C5. For a File Record as the walk hands it to the parser (the buffer is what
  \<^verbatim>\<open>ioutil.ReadAll\<close> returned, has-metadata and body still hold their zero values)
  whose content does not start with the three bytes \<^verbatim>\<open>---\<close>, the empty content and
  contents of one or two bytes included: the parser returns without error, has-metadata
  is false and the body is the whole content.
\<close>

theorem no_front_matter:
  assumes "Data file = ioutil_ReadAll content" and "\<not> HasPrefix content ''---''"
    and "\<not> HasMetadata file" and "Body file = []"
  shows "\<exists>file'. readHenryFileMetadata decode file = Ok file'
    \<and> \<not> HasMetadata file' \<and> Body file' = content"
proof (cases "content = []")
  case True
  with assms(1) have "readHenryFileMetadata decode file = Ok file"
    by (simp add: readHenryFileMetadata_empty elems_ReadAll)
  with True assms(3,4) show ?thesis by simp
next
  case False
  from readHenryFileMetadata_plain [OF assms(1) False assms(2), of decode]
  show ?thesis by simp
qed

theorem no_front_matter_witness:
  "Data (read_markdown ''dash.md'' ''/data/dash.md'' ''/data/'' ''--'') = ioutil_ReadAll ''--''
   \<and> \<not> HasPrefix ''--'' ''---''
   \<and> \<not> HasMetadata (read_markdown ''dash.md'' ''/data/dash.md'' ''/data/'' ''--'')
   \<and> Body (read_markdown ''dash.md'' ''/data/dash.md'' ''/data/'' ''--'') = []
   \<and> (\<exists>file'. readHenryFileMetadata decode_example
                   (read_markdown ''dash.md'' ''/data/dash.md'' ''/data/'' ''--'') = Ok file'
          \<and> \<not> HasMetadata file' \<and> Body file' = ''--'')"
proof -
  have d: "Data (read_markdown ''dash.md'' ''/data/dash.md'' ''/data/'' ''--'') = ioutil_ReadAll ''--''"
    and p: "\<not> HasPrefix ''--'' ''---''"
    and h: "\<not> HasMetadata (read_markdown ''dash.md'' ''/data/dash.md'' ''/data/'' ''--'')"
    and b: "Body (read_markdown ''dash.md'' ''/data/dash.md'' ''/data/'' ''--'') = []"
    by (simp_all add: read_markdown_def HasPrefix_def)
  from no_front_matter [OF d p h b, of decode_example] d p h b show ?thesis by blast
qed

section \<open>Claims about panics and the batch\<close>

lemma example_Split_rule_only: "Split ''---'' ''---'' = [[], []]"
  by code_simp

lemma parse_example_open:
  "readHenryFileMetadata decode_example
     (read_markdown ''open.md'' ''/data/open.md'' ''/data/'' ''---\<newline>draft = true\<newline>'')
   = Panic (IndexOutOfRange 2 2)"
  by (subst readHenryFileMetadata_front [where content = "''---\<newline>draft = true\<newline>''"])
    (simp_all add: read_markdown_def HasPrefix_def example_Split example_decode)

lemma parse_example_rule_only:
  "readHenryFileMetadata decode_example
     (read_markdown ''hr.md'' ''/data/hr.md'' ''/data/'' ''---'')
   = Panic (IndexOutOfRange 2 2)"
  by (subst readHenryFileMetadata_front [where content = "''---''"])
    (simp_all add: read_markdown_def HasPrefix_def example_Split_rule_only example_decode)

text \<open>
  Claim C3 (the parser never panics) fails on front matter that is never closed. The
  file \<^verbatim>\<open>open.md\<close> starts with the delimiter and holds no second one: the split has
  two parts, the decoder accepts the second, and \<^verbatim>\<open>headerParts[2]\<close> panics with an
  index out of range. The same happens to a file that is just the three bytes
  \<^verbatim>\<open>---\<close>. Buffers of one or two bytes, as the walk reads them, do not panic.
\<close>

theorem unclosed_front_matter_panics:
  "analyzeHenryFile example_fs decode_example
       (new_HenryFile ''open.md'' ''/data/open.md'') ''/data/'' = Panic (IndexOutOfRange 2 2)
   \<and> readHenryFileMetadata decode_example
       (read_markdown ''open.md'' ''/data/open.md'' ''/data/'' ''---\<newline>draft = true\<newline>'')
     = Panic (IndexOutOfRange 2 2)
   \<and> readHenryFileMetadata decode_example
       (read_markdown ''hr.md'' ''/data/hr.md'' ''/data/'' ''---'') = Panic (IndexOutOfRange 2 2)"
  by (intro conjI) (rule analyze_example_open, rule parse_example_open, rule parse_example_rule_only)

lemma createHenryDocument_nil:
  "Metadata file = None \<Longrightarrow> createHenryDocument render sanitize file = Panic NilDereference"
  by (simp add: createHenryDocument_def Let_def)

lemma analyze_example_empty:
  "analyzeHenryFile example_fs decode_example
       (new_HenryFile ''empty.md'' ''/data/empty.md'') ''/data/''
     = Ok ((read_markdown ''empty.md'' ''/data/empty.md'' ''/data/'' [])
             \<lparr>Date := Time 63682000000 0\<rparr>)"
  by (rule analyzeHenryFile_empty [OF _ example_fs_read(4) example_fs_modtime])
    (simp add: HasSuffix_def)

text \<open>
  Claim C2 (after parsing, the metadata pointer of a markdown file is never nil) fails
  on an empty markdown file: the parser returns before it sets the pointer, the file is
  analysed without error and kept, and the builder's first read of the metadata is a nil
  dereference that ends the run.
\<close>

theorem empty_markdown_file_nil_metadata:
  "analyzeHenryFile example_fs decode_example
       (new_HenryFile ''empty.md'' ''/data/empty.md'') ''/data/''
     = Ok ((read_markdown ''empty.md'' ''/data/empty.md'' ''/data/'' [])
             \<lparr>Date := Time 63682000000 0\<rparr>)
   \<and> Type ((read_markdown ''empty.md'' ''/data/empty.md'' ''/data/'' [])
             \<lparr>Date := Time 63682000000 0\<rparr>) = HenryFileTypeMarkdown
   \<and> Metadata ((read_markdown ''empty.md'' ''/data/empty.md'' ''/data/'' [])
             \<lparr>Date := Time 63682000000 0\<rparr>) = None
   \<and> createHenryDocument (\<lambda>text. text) (\<lambda>html. html)
        ((read_markdown ''empty.md'' ''/data/empty.md'' ''/data/'' [])
             \<lparr>Date := Time 63682000000 0\<rparr>) = Panic NilDereference
   \<and> henry_main example_fs decode_example (\<lambda>text. text) (\<lambda>html. html)
        [example_entry ''empty.md''] ''/data/'' = Panic NilDereference"
proof -
  let ?file = "(read_markdown ''empty.md'' ''/data/empty.md'' ''/data/'' [])
             \<lparr>Date := Time 63682000000 0\<rparr>"
  have nil: "Metadata ?file = None" and md: "Type ?file = HenryFileTypeMarkdown"
    by (simp_all add: read_markdown_def)
  have doc: "createHenryDocument (\<lambda>text. text) (\<lambda>html. html) ?file = Panic NilDereference"
    by (rule createHenryDocument_nil [OF nil])
  have "findHenryFiles example_fs decode_example [example_entry ''empty.md''] ''/data/''
      = Ok ([?file], None)"
    by (simp add: findHenryFiles_def example_entry_def analyze_example_empty)
  then have "henry_main example_fs decode_example (\<lambda>text. text) (\<lambda>html. html)
        [example_entry ''empty.md''] ''/data/'' = Panic NilDereference"
    by (simp add: henry_main_def createHenryDocuments_def doc)
  with analyze_example_empty nil md doc show ?thesis by blast
qed

lemma findHenryFiles_walk_append:
  "findHenryFiles_walk fs decode rootPath (before @ after) foundFiles
     = (case findHenryFiles_walk fs decode rootPath before foundFiles of
          Ok (found, None) \<Rightarrow> findHenryFiles_walk fs decode rootPath after found
        | Ok (found, Some err) \<Rightarrow> Ok (found, Some err)
        | Err e \<Rightarrow> Err e
        | Panic p \<Rightarrow> Panic p)"
  by (induction before arbitrary: foundFiles)
    (simp_all split: option.split result.split)

lemma createHenryDocuments_loop_present:
  "list_all (\<lambda>file. Metadata file \<noteq> None) files \<Longrightarrow>
   \<exists>built. createHenryDocuments_loop render sanitize files docs = Ok (docs @ built)
     \<and> map Ok built = map (createHenryDocument render sanitize) files"
proof (induction files arbitrary: docs)
  case Nil
  then show ?case by simp
next
  case (Cons f files)
  from Cons.prems obtain metadata where m: "Metadata f = Some metadata"
    and rest: "list_all (\<lambda>file. Metadata file \<noteq> None) files"
    by auto
  from createHenryDocument_present [OF m, of render sanitize]
  obtain doc where doc: "createHenryDocument render sanitize f = Ok doc" by blast
  from Cons.IH [OF rest, of "docs @ [doc]"] obtain built
    where "createHenryDocuments_loop render sanitize files (docs @ [doc])
        = Ok ((docs @ [doc]) @ built)"
      and "map Ok built = map (createHenryDocument render sanitize) files"
    by blast
  with doc have "createHenryDocuments_loop render sanitize (f # files) docs
      = Ok (docs @ (doc # built))
    \<and> map Ok (doc # built) = map (createHenryDocument render sanitize) (f # files)"
    by simp
  then show ?case by blast
qed

lemma find_example_1:
  "findHenryFiles example_fs decode_example [example_entry ''1.md''] ''/data/''
     = Ok ([(read_markdown ''1.md'' ''/data/1.md'' ''/data/'' ''# One\<newline>'')
            \<lparr>Body := ''# One\<newline>'', Metadata := Some zero_HenryFileMetadata,
             Date := Time 63682000000 0\<rparr>], None)"
  by (simp add: findHenryFiles_def example_entry_def analyze_example_1)

lemma find_example_123:
  "findHenryFiles example_fs decode_example
       [example_entry ''1.md'', example_entry ''2.md'', example_entry ''3.md''] ''/data/''
     = Ok ([(read_markdown ''1.md'' ''/data/1.md'' ''/data/'' ''# One\<newline>'')
            \<lparr>Body := ''# One\<newline>'', Metadata := Some zero_HenryFileMetadata,
             Date := Time 63682000000 0\<rparr>],
           Some (metadata_error ''2.md'' ''expected key separator''))"
  by (simp add: findHenryFiles_def example_entry_def analyze_example_1 analyze_example_2)

text \<open>
  Claim C1, as the code has it. When the entries before a markdown file are walked
  without error and that file's front-matter block is refused by the decoder, the walk
  stops there: \<^verbatim>\<open>findHenryFiles\<close> returns the File Records found before the file, in
  their order, together with the file's metadata error; no later entry is analysed, and
  \<^verbatim>\<open>main\<close> panics with the error before any Document is built. The assembler itself
  returns one Document per File Record, in the records' order, whenever the metadata of
  every record is present.
\<close>

theorem metadata_failure_ends_discovery:
  assumes "findHenryFiles fs decode before rootPath = Ok (found, None)"
    and "entry_err entry = None" and "\<not> entry_isDir entry"
    and "HasSuffix (entry_path entry) ''.md''"
    and "fs_read fs (entry_path entry) = Inr content"
    and "HasPrefix content ''---''"
    and "decode (Split content ''---'' ! 1) = Inl reason"
  shows "findHenryFiles fs decode (before @ entry # after) rootPath
      = Ok (found, Some (metadata_error (entry_name entry) reason))
    \<and> henry_main fs decode render sanitize (before @ entry # after) rootPath
      = Panic (PanicError (metadata_error (entry_name entry) reason))
    \<and> (list_all (\<lambda>file. Metadata file \<noteq> None) files \<longrightarrow>
        (\<exists>docs. createHenryDocuments render sanitize files = Ok docs
           \<and> map Ok docs = map (createHenryDocument render sanitize) files))"
proof -
  have "analyzeHenryFile fs decode (new_HenryFile (entry_name entry) (entry_path entry)) rootPath
      = Err (metadata_error (entry_name entry) reason)"
    using assms(7) by (simp add: analyzeHenryFile_front [OF assms(4,5,6)])
  with assms(2,3)
  have "findHenryFiles_walk fs decode rootPath (entry # after) found
      = Ok (found, Some (metadata_error (entry_name entry) reason))"
    by simp
  with assms(1)
  have walk: "findHenryFiles fs decode (before @ entry # after) rootPath
      = Ok (found, Some (metadata_error (entry_name entry) reason))"
    by (simp add: findHenryFiles_def findHenryFiles_walk_append)
  then have main: "henry_main fs decode render sanitize (before @ entry # after) rootPath
      = Panic (PanicError (metadata_error (entry_name entry) reason))"
    by (simp add: henry_main_def)
  have "\<exists>docs. createHenryDocuments render sanitize files = Ok docs
           \<and> map Ok docs = map (createHenryDocument render sanitize) files"
    if "list_all (\<lambda>file. Metadata file \<noteq> None) files"
    using createHenryDocuments_loop_present [OF that, of render sanitize "[]"]
    by (simp add: createHenryDocuments_def)
  with walk main show ?thesis by blast
qed

theorem metadata_failure_ends_discovery_witness:
  "findHenryFiles example_fs decode_example [example_entry ''1.md''] ''/data/''
     = Ok ([(read_markdown ''1.md'' ''/data/1.md'' ''/data/'' ''# One\<newline>'')
            \<lparr>Body := ''# One\<newline>'', Metadata := Some zero_HenryFileMetadata,
             Date := Time 63682000000 0\<rparr>], None)
   \<and> entry_err (example_entry ''2.md'') = None
   \<and> \<not> entry_isDir (example_entry ''2.md'')
   \<and> HasSuffix (entry_path (example_entry ''2.md'')) ''.md''
   \<and> fs_read example_fs (entry_path (example_entry ''2.md''))
       = Inr ''---\<newline>title: Two\<newline>---\<newline>body\<newline>''
   \<and> HasPrefix ''---\<newline>title: Two\<newline>---\<newline>body\<newline>'' ''---''
   \<and> decode_example (Split ''---\<newline>title: Two\<newline>---\<newline>body\<newline>'' ''---'' ! 1)
       = Inl ''expected key separator''
   \<and> findHenryFiles example_fs decode_example
         ([example_entry ''1.md''] @ example_entry ''2.md'' # [example_entry ''3.md'']) ''/data/''
       = Ok ([(read_markdown ''1.md'' ''/data/1.md'' ''/data/'' ''# One\<newline>'')
              \<lparr>Body := ''# One\<newline>'', Metadata := Some zero_HenryFileMetadata,
               Date := Time 63682000000 0\<rparr>],
             Some (metadata_error (entry_name (example_entry ''2.md'')) ''expected key separator''))
   \<and> henry_main example_fs decode_example (\<lambda>text. text) (\<lambda>html. html)
         ([example_entry ''1.md''] @ example_entry ''2.md'' # [example_entry ''3.md'']) ''/data/''
       = Panic (PanicError
           (metadata_error (entry_name (example_entry ''2.md'')) ''expected key separator''))
   \<and> list_all (\<lambda>file. Metadata file \<noteq> None) [example_post zero_HenryFileMetadata]
   \<and> (\<exists>docs. createHenryDocuments (\<lambda>text. text) (\<lambda>html. html)
                 [example_post zero_HenryFileMetadata] = Ok docs
          \<and> map Ok docs = map (createHenryDocument (\<lambda>text. text) (\<lambda>html. html))
                            [example_post zero_HenryFileMetadata])"
proof -
  have e: "entry_err (example_entry ''2.md'') = None"
    and d: "\<not> entry_isDir (example_entry ''2.md'')"
    and s: "HasSuffix (entry_path (example_entry ''2.md'')) ''.md''"
    and r: "fs_read example_fs (entry_path (example_entry ''2.md''))
       = Inr ''---\<newline>title: Two\<newline>---\<newline>body\<newline>''"
    and p: "HasPrefix ''---\<newline>title: Two\<newline>---\<newline>body\<newline>'' ''---''"
    by (simp_all add: example_entry_def HasSuffix_def HasPrefix_def example_fs_read(2))
  have b: "decode_example (Split ''---\<newline>title: Two\<newline>---\<newline>body\<newline>'' ''---'' ! 1)
       = Inl ''expected key separator''"
    by (simp add: example_Split example_decode)
  have l: "list_all (\<lambda>file. Metadata file \<noteq> None) [example_post zero_HenryFileMetadata]"
    by (simp add: example_post_Metadata)
  from metadata_failure_ends_discovery [OF find_example_1 e d s r p b,
      where render = "\<lambda>text. text" and sanitize = "\<lambda>html. html"
        and after = "[example_entry ''3.md'']"
        and files = "[example_post zero_HenryFileMetadata]"] l find_example_1 e d s r p b
  show ?thesis by blast
qed

text \<open>
  Claim C1 as stated fails: of three markdown files of which the second has a block the
  decoder refuses, only the first is found, the third is never analysed, and the run
  ends in a panic instead of two Documents.
\<close>

theorem metadata_failure_aborts_the_batch:
  "findHenryFiles example_fs decode_example
       [example_entry ''1.md'', example_entry ''2.md'', example_entry ''3.md''] ''/data/''
     = Ok ([(read_markdown ''1.md'' ''/data/1.md'' ''/data/'' ''# One\<newline>'')
            \<lparr>Body := ''# One\<newline>'', Metadata := Some zero_HenryFileMetadata,
             Date := Time 63682000000 0\<rparr>],
           Some (metadata_error ''2.md'' ''expected key separator''))
   \<and> henry_main example_fs decode_example (\<lambda>text. text) (\<lambda>html. html)
       [example_entry ''1.md'', example_entry ''2.md'', example_entry ''3.md''] ''/data/''
     = Panic (PanicError (metadata_error ''2.md'' ''expected key separator''))"
  by (simp add: henry_main_def find_example_123)

end
